theory Spec2Isabelle
  imports Complex_Main "HOL-Library.Log_Nat" "HOL-Library.Word"
begin

section \<open>JavaScript values\<close>

text \<open>
  A parsed JSON value. \<open>JNull\<close> is JavaScript's \<open>null\<close>; the value \<open>undefined\<close>, which
  a property read can give, is \<open>None\<close> of \<open>json option\<close>. \<open>JObj\<close> lists the
  properties of an object, each key once.
\<close>

datatype json =
    JNull
  | JBool bool
  | JNum rat
  | JStr string
  | JArr "json list"
  | JObj "(string \<times> json) list"

text \<open>Truthiness, as \<open>!v\<close>, \<open>v || w\<close> and \<open>if (v)\<close> test it.\<close>

fun truthy :: "json \<Rightarrow> bool" where
  "truthy JNull = False"
| "truthy (JBool b) = b"
| "truthy (JNum n) = (n \<noteq> 0)"
| "truthy (JStr s) = (s \<noteq> [])"
| "truthy (JArr xs) = True"
| "truthy (JObj kvs) = True"

text \<open>
  \<open>v.k\<close> for a value \<open>v\<close> that is not \<open>null\<close>, and for a key that no string, number,
  boolean or array carries (\<open>url\<close>, \<open>objects\<close>): only an object can hold it.
\<close>

fun get_prop :: "json \<Rightarrow> string \<Rightarrow> json option" where
  "get_prop (JObj kvs) k = map_of kvs k"
| "get_prop v k = None"

text \<open>\<open>v?.k\<close>: \<open>undefined\<close> when \<open>v\<close> is \<open>null\<close>.\<close>

definition opt_chain :: "json \<Rightarrow> string \<Rightarrow> json option" where
  "opt_chain v k = (if v = JNull then None else get_prop v k)"

text \<open>\<open>!v\<close> for a value that may be \<open>undefined\<close>.\<close>

definition falsy :: "json option \<Rightarrow> bool" where
  "falsy v = (case v of None \<Rightarrow> True | Some x \<Rightarrow> \<not> truthy x)"

text \<open>\<open>String(n)\<close> for a non-negative integer: its decimal digits.\<close>

fun show_nat :: "nat \<Rightarrow> string" where
  "show_nat n =
     (if n < 10 then [char_of (48 + n)] else show_nat (n div 10) @ [char_of (48 + n mod 10)])"

text \<open>\<open>hay.includes(needle)\<close>.\<close>

fun starts_with :: "string \<Rightarrow> string \<Rightarrow> bool" where
  "starts_with hay [] = True"
| "starts_with [] (c # cs) = False"
| "starts_with (h # hs) (c # cs) = (h = c \<and> starts_with hs cs)"

fun str_includes :: "string \<Rightarrow> string \<Rightarrow> bool" where
  "str_includes [] needle = (needle = [])"
| "str_includes (h # hs) needle = (starts_with (h # hs) needle \<or> str_includes hs needle)"

section \<open>Numbers\<close>

text \<open>
  A JavaScript number is an IEEE 754 double. The numbers of this program are never
  negative, so a number is a non-negative finite double, given by its exact value, or
  \<open>NaN\<close>, or \<open>+Infinity\<close>. \<open>fl\<close> rounds an exact value to the nearest double, ties to
  the even significand: a double in the binade \<open>[2^e, 2^(e+1))\<close> is a multiple of
  \<open>2^(e-52)\<close>. (The values that occur lie between \<open>2^-64\<close> and \<open>2^71\<close>, far inside the
  range of normal doubles, so neither overflow nor gradual underflow is modelled.)
\<close>

datatype number = Num rat | NaN | PosInfinity

text \<open>The \<open>e\<close> with \<open>2^e \<le> x < 2^(e+1)\<close>, for \<open>x > 0\<close>.\<close>

definition binade :: "rat \<Rightarrow> int" where
  "binade x =
     (if 1 \<le> x then int (floorlog 2 (nat \<lfloor>x\<rfloor>)) - 1
      else - int (floorlog 2 (nat (\<lceil>1 / x\<rceil> - 1))))"

definition round_ties_even :: "rat \<Rightarrow> int" where
  "round_ties_even x =
     (let f = \<lfloor>x\<rfloor>; r = x - of_int f
      in if r < 1 / 2 then f else if 1 / 2 < r then f + 1 else if even f then f else f + 1)"

definition fl :: "rat \<Rightarrow> rat" where
  "fl x =
     (if x \<le> 0 then 0
      else let u = 2 powi (binade x - 52) in of_int (round_ties_even (x / u)) * u)"

text \<open>
  The attributes \<open>loaded\<close> and \<open>total\<close> of a progress event are \<open>unsigned long long\<close>;
  read from JavaScript they are the nearest doubles.
\<close>

definition to_number :: "64 word \<Rightarrow> rat" where
  "to_number w = fl (of_nat (unat w))"

text \<open>\<open>a / b\<close> of two finite, non-negative doubles.\<close>

definition js_div :: "rat \<Rightarrow> rat \<Rightarrow> number" where
  "js_div a b = (if b = 0 then (if a = 0 then NaN else PosInfinity) else Num (fl (a / b)))"

text \<open>\<open>x * c\<close> for a finite, positive constant \<open>c\<close>.\<close>

fun js_mul :: "number \<Rightarrow> rat \<Rightarrow> number" where
  "js_mul (Num a) c = Num (fl (a * c))"
| "js_mul NaN c = NaN"
| "js_mul PosInfinity c = PosInfinity"

text \<open>
  \<open>Math.round\<close>: the closest integer, the one nearer to \<open>+\<infinity>\<close> on a tie, which is
  \<^const>\<open>round\<close> of HOL.
\<close>

fun Math_round :: "number \<Rightarrow> number" where
  "Math_round (Num a) = Num (of_int (round a))"
| "Math_round NaN = NaN"
| "Math_round PosInfinity = PosInfinity"

section \<open>The browser's interfaces\<close>

text \<open>
  The \<open>File\<close> the user selected: \<open>file.name\<close>, \<open>file.size\<close> (bytes), \<open>file.type\<close> (the
  MIME type, empty when the browser knows none) and a handle to its bytes.
\<close>

record File =
  file_name :: string
  file_size :: nat
  file_type :: string
  file_bytes :: nat

text \<open>
  What is thrown: the \<open>TypeError\<close> of a failed \<open>fetch\<close> or of a property read on
  \<open>null\<close>, the \<open>SyntaxError\<close> of \<open>Response.json()\<close> on a body that is not JSON, and the
  \<open>Error\<close>s the program makes itself, with their messages.
\<close>

datatype exn = TypeError | SyntaxError | Error string

text \<open>
  The body of an HTTP response: \<open>Json v\<close> is a text that parses to \<open>v\<close>, \<open>Raw s\<close> a
  text that is not JSON (HTML, plain text).
\<close>

datatype body = Json json | Raw string

record response =
  status :: nat
  statusText :: string
  content_type :: "string option"
  body :: body

text \<open>\<open>res.ok\<close>.\<close>

definition ok :: "response \<Rightarrow> bool" where
  "ok res = (200 \<le> status res \<and> status res \<le> 299)"

text \<open>What a \<open>fetch\<close> settles with: it rejects when no response arrives.\<close>

datatype fetch_result = NetworkError | Resolves response

text \<open>
  The events an \<open>XMLHttpRequest\<close> delivers after \<open>send\<close>: upload progress
  (\<open>lengthComputable\<close>, \<open>loaded\<close>, \<open>total\<close>), \<open>load\<close> (with \<open>xhr.status\<close> and
  \<open>xhr.statusText\<close> as they are then) or \<open>error\<close>.
\<close>

datatype xhr_event =
    Progress bool "64 word" "64 word"
  | Load nat string
  | NetError


text \<open>What the program does to the world, in order.\<close>

datatype effect =
    Alert string
  | Fetch string "(string \<times> string) list"
  | ConsoleWarn string
  | XhrOpen string json bool
  | XhrSetRequestHeader string string
  | XhrSend File
  | UnhandledRejection exn

text \<open>
  Kinds of effects: the messages the user sees, the steps of the upload transport,
  and among them the one that sends the file.
\<close>

fun is_alert :: "effect \<Rightarrow> bool" where
  "is_alert (Alert m) = True"
| "is_alert e = False"

fun is_transport :: "effect \<Rightarrow> bool" where
  "is_transport (XhrOpen m u a) = True"
| "is_transport (XhrSetRequestHeader k v) = True"
| "is_transport (XhrSend f) = True"
| "is_transport e = False"


text \<open>
  A promise is pending until the first \<open>resolve\<close> or \<open>reject\<close>; later calls change
  nothing.
\<close>

datatype promise = Pending | Fulfilled | Rejected exn

fun resolve :: "promise \<Rightarrow> promise" where
  "resolve Pending = Fulfilled"
| "resolve p = p"

fun reject :: "exn \<Rightarrow> promise \<Rightarrow> promise" where
  "reject e Pending = Rejected e"
| "reject e p = p"

text \<open>
  How a call of an \<open>async\<close> function ends: it returns, it throws (its promise
  rejects), or it waits for ever on a promise that never settles.
\<close>

datatype outcome = Returned | Threw exn | Waiting

section \<open>\<open>src/shared/api.ts\<close>\<close>

text \<open>
  \<open>apiGet(path)\<close>: the requests and warnings made, and the error thrown or the value
  returned (\<open>null\<close> for a response that is not ok, not declared JSON, or not
  parseable).
\<close>

definition apiGet :: "string \<Rightarrow> fetch_result \<Rightarrow> effect list \<times> (exn + json)" where
  "apiGet path fr =
     (case fr of
        NetworkError \<Rightarrow> ([Fetch path []], Inl TypeError)
      | Resolves res \<Rightarrow>
          if \<not> ok res then
            ([Fetch path [],
              ConsoleWarn (''apiGet '' @ path @ '' returned '' @ show_nat (status res)
                @ '' '' @ statusText res)],
             Inr JNull)
          else
            let contentType =
                  (case content_type res of None \<Rightarrow> [] | Some c \<Rightarrow> c)
            in if \<not> str_includes contentType ''application/json'' then
                 ([Fetch path []], Inr JNull)
               else
                 (case body res of
                    Json v \<Rightarrow> ([Fetch path []], Inr v)
                  | Raw t \<Rightarrow> ([Fetch path [], ConsoleWarn ''apiGet parse error''], Inr JNull)))"

section \<open>\<open>src/upload/UploadPage.tsx\<close>\<close>

text \<open>The component's state: \<open>file\<close> (here \<open>file_sel\<close>), \<open>progress\<close>, \<open>objects\<close>.\<close>

record state =
  file_sel :: "File option"
  progress :: number
  objects :: json

definition initial :: state where
  "initial = \<lparr>file_sel = None, progress = Num 0, objects = JArr []\<rparr>"

definition maxSize :: nat where
  "maxSize = 1024 * 1024 * 1024"

text \<open>
  What the world answers during one run: the response to the presign request, the
  events of the upload's \<open>XMLHttpRequest\<close> in the order of their delivery, the
  response to the listing request, and the platform's \<open>JSON.stringify\<close>.
\<close>

record world =
  presign_response :: fetch_result
  xhr_events :: "xhr_event list"
  list_response :: fetch_result
  JSON_stringify :: "json \<Rightarrow> string"

text \<open>
  \<open>refreshList()\<close>: \<open>res.objects\<close> throws a \<open>TypeError\<close> when \<open>res\<close> is \<open>null\<close>.
\<close>

definition refreshList :: "fetch_result \<Rightarrow> state \<Rightarrow> state \<times> effect list \<times> outcome" where
  "refreshList fr s =
     (case apiGet ''/api/r2/list'' fr of
        (es, Inl e) \<Rightarrow> (s, es, Threw e)
      | (es, Inr res) \<Rightarrow>
          if res = JNull then (s, es, Threw TypeError)
          else
            (s\<lparr>objects :=
                 (case get_prop res ''objects'' of
                    None \<Rightarrow> JArr []
                  | Some v \<Rightarrow> if truthy v then v else JArr [])\<rparr>,
             es, Returned))"

text \<open>
  One event at the handlers \<open>putWithProgress\<close> installs: \<open>xhr.upload.onprogress\<close>,
  \<open>xhr.onload\<close>, \<open>xhr.onerror\<close>. \<open>onProgress\<close> is the caller's callback, acting on the
  caller's state. The request is never aborted and has no timeout, so \<open>load\<close> and
  \<open>error\<close> are the only events that end it.
\<close>

fun xhr_deliver ::
  "(number \<Rightarrow> 'st \<Rightarrow> 'st) \<Rightarrow> promise \<times> 'st \<Rightarrow> xhr_event \<Rightarrow> promise \<times> 'st" where
  "xhr_deliver onProgress (p, st) (Progress lengthComputable loaded tot) =
     (p, if lengthComputable
         then onProgress (Math_round (js_mul (js_div (to_number loaded) (to_number tot)) 100)) st
         else st)"
| "xhr_deliver onProgress (p, st) (Load st_code st_text) =
     (if 200 \<le> st_code \<and> st_code < 300 then resolve p
      else reject (Error (''Upload failed: '' @ st_text @ '' '' @ show_nat st_code)) p, st)"
| "xhr_deliver onProgress (p, st) NetError = (reject (Error ''XHR network error'') p, st)"

text \<open>
  \<open>putWithProgress(url, file, onProgress)\<close>, with the events the request then delivers:
  the steps taken, the promise returned as it ends up, and the caller's state after
  the callbacks. \<open>url\<close> is the value the presign body carries under \<open>url\<close>, whatever
  its type.
\<close>

definition putWithProgress ::
  "json \<Rightarrow> File \<Rightarrow> (number \<Rightarrow> 'st \<Rightarrow> 'st) \<Rightarrow> xhr_event list \<Rightarrow> 'st
     \<Rightarrow> effect list \<times> promise \<times> 'st" where
  "putWithProgress url f onProgress events st =
     (let (p, st') = foldl (xhr_deliver onProgress) (Pending, st) events
      in ([XhrOpen ''PUT'' url True,
           XhrSetRequestHeader ''Content-Type''
             (if file_type f = [] then ''application/octet-stream'' else file_type f),
           XhrSend f],
          p, st'))"

definition setProgress :: "number \<Rightarrow> state \<Rightarrow> state" where
  "setProgress p s = s\<lparr>progress := p\<rparr>"

text \<open>
  \<open>upload()\<close>: the state afterwards, what was done, and how the call ended. The last
  call, \<open>refreshList()\<close>, is not awaited: when it throws, \<open>upload\<close> has returned and the
  rejection is left unhandled.
\<close>

definition upload :: "world \<Rightarrow> state \<Rightarrow> state \<times> effect list \<times> outcome" where
  "upload w s =
     (case file_sel s of
        None \<Rightarrow> (s, [Alert ''choose a file''], Returned)
      | Some f \<Rightarrow>
          if file_size f > maxSize then (s, [Alert ''file exceeds max size (1GB)''], Returned)
          else
            (let req = [Fetch ''/api/r2/presign''
                          [(''filename'', file_name f), (''contentType'', file_type f)]]
             in (case presign_response w of
                   NetworkError \<Rightarrow> (s, req, Threw TypeError)
                 | Resolves r \<Rightarrow>
                     (case body r of
                        Raw t \<Rightarrow> (s, req, Threw SyntaxError)
                      | Json payload \<Rightarrow>
                          if falsy (opt_chain payload ''url'') then
                            (s, req @ [Alert (''presign failed: '' @ JSON_stringify w payload)],
                             Returned)
                          else
                            (let presignedUrl = the (get_prop payload ''url'');
                                 (put, p, s1) =
                                   putWithProgress presignedUrl f setProgress (xhr_events w) s
                             in (case p of
                                   Pending \<Rightarrow> (s1, req @ put, Waiting)
                                 | Rejected e \<Rightarrow> (s1, req @ put, Threw e)
                                 | Fulfilled \<Rightarrow>
                                     (let s2 = s1\<lparr>progress := Num 0, file_sel := None\<rparr>;
                                          (s3, es, out) = refreshList (list_response w) s2
                                      in (s3,
                                          req @ put @ [Alert ''Upload complete''] @ es
                                            @ (case out of
                                                 Threw e \<Rightarrow> [UnhandledRejection e]
                                               | Returned \<Rightarrow> []
                                               | Waiting \<Rightarrow> []),
                                          Returned))))))))"

section \<open>\<open>worker/index.ts\<close>\<close>

text \<open>
  A request as the router reads it: the method and the path of the URL (the query
  string is not part of the path).
\<close>

record request =
  req_method :: string
  pathname :: string

text \<open>
  The bindings of \<open>Env\<close> that the asset route reads. \<open>ASSETS\<close> is \<open>None\<close> when the
  binding is missing; otherwise it gives, for the path of a request, what
  \<open>getAssetFromKV\<close> of \<open>@cloudflare/kv-asset-handler\<close> returns for it, \<open>None\<close> when it
  throws (no such asset).
\<close>

record Env =
  ASSETS :: "(string \<Rightarrow> response option) option"

definition jsonResponse :: "json \<Rightarrow> nat \<Rightarrow> response" where
  "jsonResponse obj st =
     \<lparr>status = st, statusText = [], content_type = Some ''application/json'', body = Json obj\<rparr>"

definition serveAsset :: "request \<Rightarrow> Env \<Rightarrow> response" where
  "serveAsset req env =
     (case ASSETS env of
        None \<Rightarrow>
          \<lparr>status = 500, statusText = [], content_type = Some ''text/plain;charset=UTF-8'',
           body = Raw ''Asset binding (ASSETS) not configured. Ensure [site] in wrangler.toml.''\<rparr>
      | Some getAssetFromKV \<Rightarrow>
          (case getAssetFromKV (pathname req) of
             Some assetResponse \<Rightarrow> assetResponse
           | None \<Rightarrow>
               (case getAssetFromKV ''/employee.html'' of
                  Some fallbackResponse \<Rightarrow> fallbackResponse
                | None \<Rightarrow>
                    \<lparr>status = 404, statusText = [],
                     content_type = Some ''text/plain;charset=UTF-8'',
                     body = Raw ''Not Found''\<rparr>)))"

text \<open>The handler of \<open>router.get('*', ...)\<close>.\<close>

definition asset_route :: "request \<Rightarrow> Env \<Rightarrow> response" where
  "asset_route req env =
     (if pathname req = ''/'' \<or> pathname req = ''/employee'' then
        serveAsset (req\<lparr>pathname := ''/employee.html''\<rparr>) env
      else if pathname req = ''/upload'' then
        serveAsset (req\<lparr>pathname := ''/upload.html''\<rparr>) env
      else serveAsset req env)"

text \<open>
  The routes, in the order \<open>worker/index.ts\<close> registers them on the \<open>itty-router\<close>:
  method, path pattern, handler.
\<close>

datatype handler = CreateEmployee | ListEmployees | ListR2 | DebugEnv | StaticAsset

definition router :: "(string \<times> string \<times> handler) list" where
  "router =
     [(''POST'', ''/api/employees'', CreateEmployee),
      (''GET'', ''/api/employees'', ListEmployees),
      (''GET'', ''/api/r2/list'', ListR2),
      (''GET'', ''/_debug/env'', DebugEnv),
      (''GET'', ''*'', StaticAsset)]"

text \<open>
  \<open>itty-router\<close> matches a path against a pattern without parameters when the pattern
  is \<open>*\<close>, or the path is the pattern, trailing slashes apart.
\<close>

fun drop_trailing_slashes :: "string \<Rightarrow> string" where
  "drop_trailing_slashes p = rev (dropWhile (\<lambda>c. c = CHR ''/'') (rev p))"

definition route_matches :: "request \<Rightarrow> string \<times> string \<times> handler \<Rightarrow> bool" where
  "route_matches req r =
     (case r of (m, pat, h) \<Rightarrow>
        m = req_method req \<and> (pat = ''*'' \<or> drop_trailing_slashes (pathname req) = pat))"

text \<open>
  \<open>router.handle\<close>: every handler of \<open>worker/index.ts\<close> returns a response, so the
  first route that matches answers.
\<close>

definition router_handle :: "request \<Rightarrow> handler option" where
  "router_handle req = map_option (\<lambda>(m, pat, h). h) (find (route_matches req) router)"

section \<open>Example inputs\<close>

text \<open>
  The scenario of the specification: the candidate \<open>report.pdf\<close> of 2048 bytes, an
  issuer that answers with a URL, a transport that reports the whole file sent and
  ends with status 200, and a lister that answers with the one stored object.
\<close>

definition report_pdf :: File where
  "report_pdf =
     \<lparr>file_name = ''report.pdf'', file_size = 2048, file_type = ''application/pdf'',
      file_bytes = 0\<rparr>"

definition stored_report :: json where
  "stored_report =
     JObj [(''key'', JStr ''uploads/report.pdf''), (''size'', JNum 2048),
           (''uploaded'', JStr ''t0'')]"

definition scenario :: world where
  "scenario =
     \<lparr>presign_response =
        Resolves (jsonResponse (JObj [(''url'', JStr ''https://store.example/abc'')]) 200),
      xhr_events = [Progress True 2048 2048, Load 200 ''OK''],
      list_response = Resolves (jsonResponse (JObj [(''objects'', JArr [stored_report])]) 200),
      JSON_stringify = (\<lambda>v. ''[payload]'')\<rparr>"

text \<open>The state with \<open>report.pdf\<close> selected.\<close>

definition selected :: state where
  "selected = initial\<lparr>file_sel := Some report_pdf\<rparr>"

text \<open>A deployed site: the only asset is \<open>/employee.html\<close>.\<close>

definition employee_html :: response where
  "employee_html =
     \<lparr>status = 200, statusText = [], content_type = Some ''text/html'',
      body = Raw ''<!doctype html>''\<rparr>"

definition site :: Env where
  "site = \<lparr>ASSETS = Some (\<lambda>p. if p = ''/employee.html'' then Some employee_html else None)\<rparr>"

section \<open>Rounding to a double\<close>

lemma round_ties_even_of_int: "round_ties_even (of_int n) = n"
  by (simp add: round_ties_even_def)

lemma round_ties_even_bounds:
  "\<lfloor>x\<rfloor> \<le> round_ties_even x" "round_ties_even x \<le> \<lceil>x\<rceil>"
   apply (simp add: round_ties_even_def Let_def)
  apply (simp add: round_ties_even_def Let_def ceiling_altdef)
  done

lemma round_ties_even_mono:
  assumes "x \<le> y" shows "round_ties_even x \<le> round_ties_even y"
proof (cases "\<lfloor>x\<rfloor> = \<lfloor>y\<rfloor>")
  case True
  then show ?thesis using assms
    by (auto simp: round_ties_even_def Let_def)
next
  case False
  with assms have "\<lfloor>x\<rfloor> < \<lfloor>y\<rfloor>"
    by (simp add: floor_mono order.not_eq_order_implies_strict)
  then have "\<lceil>x\<rceil> \<le> \<lfloor>y\<rfloor>"
    by (simp add: ceiling_altdef)
  then show ?thesis
    using round_ties_even_bounds(2) [of x] round_ties_even_bounds(1) [of y] by linarith
qed


lemma binade_ge1:
  assumes "1 \<le> x"
  shows "2 powi binade x \<le> x" and "x < 2 powi (binade x + 1)"
proof -
  define n where "n = nat \<lfloor>x\<rfloor>"
  have n: "0 < n" using assms by (simp add: n_def)
  have fl: "0 < floorlog 2 n" using n by (simp add: floorlog_def)
  have b: "binade x = int (floorlog 2 n - 1)"
    using assms fl by (simp add: binade_def n_def)
  have b1: "binade x + 1 = int (floorlog 2 n)"
    using assms fl by (simp add: binade_def n_def)
  from floorlog_bounds [OF n, of 2]
  have lo: "2 ^ (floorlog 2 n - 1) \<le> n" and hi: "n < 2 ^ floorlog 2 n" by simp_all
  have "(2::rat) ^ (floorlog 2 n - 1) = of_nat (2 ^ (floorlog 2 n - 1))" by simp
  also have "\<dots> \<le> of_nat n" using lo of_nat_le_iff by blast
  also have "\<dots> = of_int \<lfloor>x\<rfloor>" using assms by (simp add: n_def)
  also have "\<dots> \<le> x" by simp
  finally show "2 powi binade x \<le> x" by (simp add: b del: of_nat_diff)
  have "\<lfloor>x\<rfloor> = int n" using assms by (simp add: n_def)
  moreover have "int n < int (2 ^ floorlog 2 n)" using hi by (simp only: of_nat_less_iff)
  ultimately have "\<lfloor>x\<rfloor> < 2 ^ floorlog 2 n" by simp
  then have "x < of_int (2 ^ floorlog 2 n)"
    using floor_less_iff by blast
  then show "x < 2 powi (binade x + 1)" by (simp add: b1)
qed


lemma binade_lt1:
  assumes "0 < x" "x < 1"
  shows "2 powi binade x \<le> x" and "x < 2 powi (binade x + 1)"
proof -
  define y where "y = 1 / x"
  define n where "n = nat (\<lceil>y\<rceil> - 1)"
  define k where "k = floorlog 2 n"
  have y: "1 < y" using assms by (simp add: y_def)
  then have c: "2 \<le> \<lceil>y\<rceil>" by (simp add: le_ceiling_iff)
  then have n: "0 < n" and cn: "\<lceil>y\<rceil> = int n + 1" by (simp_all add: n_def)
  have b: "binade x = - int k"
    using assms by (simp add: binade_def k_def n_def y_def)
  have k: "0 < k" using n by (simp add: k_def floorlog_def)
  from floorlog_bounds [OF n, of 2]
  have lo: "2 ^ (k - 1) \<le> n" and hi: "n < 2 ^ k" by (simp_all add: k_def)
  have "int n < int (2 ^ k)" using hi by (simp only: of_nat_less_iff)
  also have "int (2 ^ k) = 2 ^ k" by simp
  finally have "\<lceil>y\<rceil> \<le> 2 ^ k" using cn by linarith
  then have "y \<le> of_int (2 ^ k)" using ceiling_le_iff by blast
  then have "1 / x \<le> 2 ^ k" by (simp add: y_def)
  then have "1 / 2 ^ k \<le> x" using assms by (simp add: field_simps)
  then show "2 powi binade x \<le> x" by (simp add: b power_int_minus_divide)
  have "int (2 ^ (k - 1)) \<le> int n" using lo by (simp only: of_nat_le_iff)
  moreover have "int (2 ^ (k - 1)) = 2 ^ (k - 1)" by simp
  ultimately have "2 ^ (k - 1) < \<lceil>y\<rceil>" using cn by linarith
  then have "of_int (2 ^ (k - 1)) < y" using less_ceiling_iff by blast
  then have "2 ^ (k - 1) < 1 / x" by (simp add: y_def)
  then have "x < 1 / 2 ^ (k - 1)" using assms by (simp add: field_simps)
  moreover have "binade x + 1 = - int (k - 1)" using k b by simp
  ultimately show "x < 2 powi (binade x + 1)"
    by (simp add: power_int_minus_divide del: of_nat_diff)
qed

lemma binade_bounds:
  assumes "0 < x"
  shows "2 powi binade x \<le> x" and "x < 2 powi (binade x + 1)"
  using assms binade_ge1 [of x] binade_lt1 [of x] by (cases "1 \<le> x"; simp)+

lemma binade_mono:
  assumes "0 < x" "x \<le> y"
  shows "binade x \<le> binade y"
proof (rule ccontr)
  assume "\<not> binade x \<le> binade y"
  then have "binade y + 1 \<le> binade x" by simp
  then have "(2::rat) powi (binade y + 1) \<le> 2 powi binade x"
    by (simp add: power_int_increasing)
  also have "\<dots> \<le> x" using assms binade_bounds(1) by simp
  finally have "2 powi (binade y + 1) \<le> y" using assms by simp
  moreover have "y < 2 powi (binade y + 1)" using assms binade_bounds(2) [of y] by simp
  ultimately show False by simp
qed

lemma fl_nonneg: "0 \<le> fl x"
proof (cases "x \<le> 0")
  case True then show ?thesis by (simp add: fl_def)
next
  case False
  define u :: rat where "u = 2 powi (binade x - 52)"
  have u: "0 < u" by (simp add: u_def)
  have "0 \<le> x / u" using False u by simp
  then have "0 \<le> \<lfloor>x / u\<rfloor>" by simp
  then have "0 \<le> round_ties_even (x / u)"
    using round_ties_even_bounds(1) [of "x / u"] by linarith
  then show ?thesis using False u by (simp add: fl_def u_def Let_def)
qed

lemma fl_lower:
  assumes "0 < x" shows "2 powi binade x \<le> fl x"
proof -
  define u :: rat where "u = 2 powi (binade x - 52)"
  have u: "0 < u" by (simp add: u_def)
  have p: "(2::rat) powi binade x = 2 ^ 52 * u"
    using power_int_add [of "2::rat" 52 "binade x - 52"] by (simp add: u_def)
  have "2 ^ 52 * u \<le> x" using binade_bounds(1) [OF assms] p by simp
  then have "of_int (2 ^ 52) \<le> x / u" using u by (simp add: field_simps)
  then have "round_ties_even (of_int (2 ^ 52)) \<le> round_ties_even (x / u)"
    by (rule round_ties_even_mono)
  then have "2 ^ 52 \<le> round_ties_even (x / u)"
    by (simp only: round_ties_even_of_int)
  then have "of_int (2 ^ 52) \<le> (of_int (round_ties_even (x / u)) :: rat)"
    by (simp only: of_int_le_iff)
  then have "of_int (2 ^ 52) * u \<le> of_int (round_ties_even (x / u)) * u"
    using u by (simp only: mult_le_cancel_right_pos)
  then show ?thesis using assms p by (simp add: fl_def u_def [symmetric] Let_def)
qed

lemma fl_upper:
  assumes "0 < x" shows "fl x \<le> 2 powi (binade x + 1)"
proof -
  define u :: rat where "u = 2 powi (binade x - 52)"
  have u: "0 < u" by (simp add: u_def)
  have p: "(2::rat) powi (binade x + 1) = 2 ^ 53 * u"
    using power_int_add [of "2::rat" 53 "binade x - 52"] by (simp add: u_def add.commute)
  have "x \<le> 2 ^ 53 * u" using binade_bounds(2) [OF assms] p by simp
  then have "x / u \<le> of_int (2 ^ 53)" using u by (simp add: field_simps)
  then have "round_ties_even (x / u) \<le> round_ties_even (of_int (2 ^ 53))"
    by (rule round_ties_even_mono)
  then have "round_ties_even (x / u) \<le> 2 ^ 53"
    by (simp only: round_ties_even_of_int)
  then have "(of_int (round_ties_even (x / u)) :: rat) \<le> of_int (2 ^ 53)"
    by (simp only: of_int_le_iff)
  then have "of_int (round_ties_even (x / u)) * u \<le> of_int (2 ^ 53) * u"
    using u by (simp only: mult_le_cancel_right_pos)
  then show ?thesis using assms p by (simp add: fl_def u_def [symmetric] Let_def)
qed

lemma fl_mono:
  assumes "x \<le> y" shows "fl x \<le> fl y"
proof (cases "x \<le> 0")
  case True
  then have "fl x = 0" by (simp add: fl_def)
  then show ?thesis using fl_nonneg [of y] by simp
next
  case False
  then have x: "0 < x" and y: "0 < y" using assms by simp_all
  have le: "binade x \<le> binade y" using binade_mono [OF x assms] .
  show ?thesis
  proof (cases "binade x = binade y")
    case True
    define u :: rat where "u = 2 powi (binade x - 52)"
    have u: "0 < u" by (simp add: u_def)
    have "x / u \<le> y / u" using assms u by (simp add: divide_right_mono)
    then have "round_ties_even (x / u) \<le> round_ties_even (y / u)"
      by (rule round_ties_even_mono)
    then have "(of_int (round_ties_even (x / u)) :: rat) \<le> of_int (round_ties_even (y / u))"
      by (simp only: of_int_le_iff)
    then have "of_int (round_ties_even (x / u)) * u \<le> of_int (round_ties_even (y / u)) * u"
      using u by (simp only: mult_le_cancel_right_pos)
    then show ?thesis using x y True [symmetric] by (simp add: fl_def u_def [symmetric] Let_def)
  next
    case False
    with le have "binade x + 1 \<le> binade y" by simp
    then have "(2::rat) powi (binade x + 1) \<le> 2 powi binade y"
      by (simp add: power_int_increasing)
    then show ?thesis using fl_upper [OF x] fl_lower [OF y] by linarith
  qed
qed

lemma fl_pos:
  assumes "0 < x" shows "0 < fl x"
proof -
  have "(0::rat) < 2 powi binade x" by simp
  with fl_lower [OF assms] show ?thesis by linarith
qed

lemma fl_1: "fl 1 = 1"
  by code_simp

lemma fl_100: "fl 100 = 100"
  by code_simp

lemma to_number_mono:
  assumes "l \<le> t" shows "to_number l \<le> to_number t"
proof -
  have "unat l \<le> unat t" using assms by (simp add: word_le_nat_alt)
  then have "(of_nat (unat l) :: rat) \<le> of_nat (unat t)" by (simp only: of_nat_le_iff)
  then show ?thesis unfolding to_number_def by (rule fl_mono)
qed

lemma to_number_pos:
  assumes "t \<noteq> 0" shows "0 < to_number t"
proof -
  have "0 < unat t" using assms by (simp add: unat_gt_0)
  then have "(0::rat) < of_nat (unat t)" by (simp only: of_nat_0_less_iff)
  then show ?thesis unfolding to_number_def by (rule fl_pos)
qed

lemma to_number_nonneg: "0 \<le> to_number t"
  by (simp add: to_number_def fl_nonneg)

lemma percent_range:
  assumes "loaded \<le> tot" "tot \<noteq> 0"
  shows "\<exists>k. Math_round (js_mul (js_div (to_number loaded) (to_number tot)) 100) = Num (of_int k)
            \<and> 0 \<le> k \<and> k \<le> 100"
proof -
  define q where "q = fl (to_number loaded / to_number tot)"
  define v where "v = fl (q * 100)"
  have t: "0 < to_number tot" using assms(2) by (rule to_number_pos)
  have "to_number loaded / to_number tot \<le> 1"
    using t to_number_mono [OF assms(1)] by simp
  then have "q \<le> fl 1" unfolding q_def by (rule fl_mono)
  then have q1: "q \<le> 1" by (simp only: fl_1)
  have q0: "0 \<le> q" unfolding q_def by (rule fl_nonneg)
  have "q * 100 \<le> 100" using q1 by simp
  then have "v \<le> fl 100" unfolding v_def by (rule fl_mono)
  then have v1: "v \<le> 100" by (simp only: fl_100)
  have v0: "0 \<le> v" unfolding v_def by (rule fl_nonneg)
  have "round (0::rat) \<le> round v" using v0 by (rule round_mono)
  moreover have "round v \<le> round (100::rat)" using v1 by (rule round_mono)
  ultimately have "0 \<le> round v \<and> round v \<le> 100" by simp
  moreover have "Math_round (js_mul (js_div (to_number loaded) (to_number tot)) 100) = Num (of_int (round v))"
    using t by (simp add: js_div_def v_def q_def)
  ultimately show ?thesis by blast
qed


text \<open>The rounding error: at most half a unit in the last place.\<close>

lemma round_ties_even_near: "\<bar>of_int (round_ties_even y) - y\<bar> \<le> 1 / 2"
proof -
  define r where "r = y - of_int \<lfloor>y\<rfloor>"
  have r: "0 \<le> r" "r < 1" unfolding r_def by linarith+
  consider "r < 1 / 2" | "1 / 2 < r" | "r = 1 / 2" by linarith
  then show ?thesis
  proof cases
    case 1
    then have "round_ties_even y = \<lfloor>y\<rfloor>"
      unfolding r_def by (simp add: round_ties_even_def Let_def)
    then show ?thesis using 1 r unfolding r_def by simp
  next
    case 2
    then have "round_ties_even y = \<lfloor>y\<rfloor> + 1"
      unfolding r_def by (simp add: round_ties_even_def Let_def)
    then show ?thesis using 2 r unfolding r_def by simp
  next
    case 3
    have "round_ties_even y = \<lfloor>y\<rfloor> \<or> round_ties_even y = \<lfloor>y\<rfloor> + 1"
      by (simp add: round_ties_even_def Let_def)
    then show ?thesis using 3 unfolding r_def by auto
  qed
qed

lemma fl_error:
  assumes "0 < x"
  shows "\<bar>fl x - x\<bar> \<le> x / 2 ^ 53"
proof -
  define u :: rat where "u = 2 powi (binade x - 52)"
  have u: "0 < u" by (simp add: u_def)
  have p: "(2::rat) powi binade x = 2 ^ 52 * u"
    using power_int_add [of "2::rat" 52 "binade x - 52"] by (simp add: u_def)
  have ux: "2 ^ 52 * u \<le> x" using binade_bounds(1) [OF assms] p by simp
  have "fl x - x = (of_int (round_ties_even (x / u)) - x / u) * u"
    using assms u by (simp add: fl_def u_def [symmetric] Let_def field_simps)
  then have "\<bar>fl x - x\<bar> = \<bar>of_int (round_ties_even (x / u)) - x / u\<bar> * u"
    using u by (simp add: abs_mult)
  also have "\<dots> \<le> 1 / 2 * u"
    using round_ties_even_near [of "x / u"] u by (simp only: mult_le_cancel_right_pos)
  also have "\<dots> \<le> x / 2 ^ 53" using ux by simp
  finally show ?thesis .
qed

lemma fl_crude:
  assumes "0 \<le> x"
  shows "999 / 1000 * x \<le> fl x" and "fl x \<le> 1001 / 1000 * x"
proof -
  have "\<bar>fl x - x\<bar> \<le> x / 1000"
  proof (cases "x = 0")
    case True
    then show ?thesis by (simp add: fl_def)
  next
    case False
    then have x: "0 < x" using assms by simp
    have "x / 2 ^ 53 \<le> x / 1000" using x by (simp add: field_simps)
    with fl_error [OF x] show ?thesis by linarith
  qed
  then show "999 / 1000 * x \<le> fl x" and "fl x \<le> 1001 / 1000 * x" by linarith+
qed

lemma round_close:
  fixes a b :: rat
  assumes "\<bar>a - b\<bar> < 1"
  shows "\<bar>round a - round b\<bar> \<le> 1"
proof -
  have le: "\<lfloor>c + 1 / 2\<rfloor> \<le> \<lfloor>d + 1 / 2\<rfloor> + 1" if "c - d < 1" for c d :: rat
  proof -
    have "c + 1 / 2 \<le> (d + 1 / 2) + of_int 1" using that by simp
    then have "\<lfloor>c + 1 / 2\<rfloor> \<le> \<lfloor>(d + 1 / 2) + of_int 1\<rfloor>" by (rule floor_mono)
    also have "\<dots> = \<lfloor>d + 1 / 2\<rfloor> + 1" by (simp only: floor_add_int)
    finally show ?thesis .
  qed
  have ab: "a - b < 1" and ba: "b - a < 1" using assms by linarith+
  have "round a \<le> round b + 1" unfolding round_def using ab by (rule le)
  moreover have "round b \<le> round a + 1" unfolding round_def using ba by (rule le)
  ultimately show ?thesis by linarith
qed

lemma percent_near_exact:
  assumes "loaded \<le> tot" "tot \<noteq> 0"
  shows "\<bar>round (fl (fl (to_number loaded / to_number tot) * 100))
          - round (of_nat (unat loaded) / of_nat (unat tot) * 100 :: rat)\<bar> \<le> 1"
proof -
  define l :: rat where "l = of_nat (unat loaded)"
  define t :: rat where "t = of_nat (unat tot)"
  define x where "x = l / t"
  define q0 where "q0 = to_number loaded / to_number tot"
  have l0: "0 \<le> l" unfolding l_def by (rule of_nat_0_le_iff)
  have "0 < unat tot" using assms(2) by (simp add: unat_gt_0)
  then have t0: "0 < t" unfolding t_def by (simp only: of_nat_0_less_iff)
  have "unat loaded \<le> unat tot" using assms(1) by (simp add: word_le_nat_alt)
  then have lt: "l \<le> t" unfolding l_def t_def by (simp only: of_nat_le_iff)
  have x0: "0 \<le> x" and x1: "x \<le> 1" using l0 t0 lt by (simp_all add: x_def)
  have L: "999 / 1000 * l \<le> to_number loaded" "to_number loaded \<le> 1001 / 1000 * l"
    using fl_crude [OF l0] by (simp_all add: to_number_def l_def)
  have T: "999 / 1000 * t \<le> to_number tot" "to_number tot \<le> 1001 / 1000 * t"
    using fl_crude [of t] t0 by (simp_all add: to_number_def t_def)
  have T0: "0 < to_number tot" using T(1) t0 by linarith
  have "q0 \<le> (1001 / 1000 * l) / (999 / 1000 * t)"
    unfolding q0_def using L(2) T(1) t0 l0 by (intro frac_le) simp_all
  then have q0u: "q0 \<le> 1001 / 999 * x" by (simp add: x_def)
  have "(999 / 1000 * l) / (1001 / 1000 * t) \<le> q0"
    unfolding q0_def using L(1) T(2) T0 l0 by (intro frac_le) simp_all
  then have q0l: "999 / 1001 * x \<le> q0" by (simp add: x_def)
  have q00: "0 \<le> q0" using q0l x0 by linarith
  have q: "999 / 1000 * q0 \<le> fl q0" "fl q0 \<le> 1001 / 1000 * q0"
    using fl_crude [OF q00] by simp_all
  have "0 \<le> fl q0 * 100" using fl_nonneg [of q0] by simp
  then have v: "999 / 1000 * (fl q0 * 100) \<le> fl (fl q0 * 100)"
      "fl (fl q0 * 100) \<le> 1001 / 1000 * (fl q0 * 100)"
    using fl_crude [of "fl q0 * 100"] by simp_all
  have "\<bar>fl (fl q0 * 100) - x * 100\<bar> < 1"
    using v q q0u q0l x0 x1 by linarith
  then have "\<bar>round (fl (fl q0 * 100)) - round (x * 100)\<bar> \<le> 1"
    by (rule round_close)
  then show ?thesis by (simp add: q0_def x_def l_def t_def)
qed

lemma fl_exact_small:
  "fl 5 = 5" "fl 10 = 10" "fl 23 = 23" "fl 40 = 40" "fl 50 = 50" "fl 2048 = 2048"
  by code_simp+

lemma round_fl_half: "round (fl (fl (5 / 10) * 100)) = 50"
  by code_simp

lemma round_fl_23_40: "round (fl (fl (23 / 40) * 100)) = 57"
  by code_simp

lemma percent_2048_2048:
  "Math_round (js_mul (js_div (to_number 2048) (to_number 2048)) 100) = Num 100"
  by (simp add: to_number_def js_div_def fl_exact_small fl_1 fl_100)

lemma percent_5_10:
  "Math_round (js_mul (js_div (to_number 5) (to_number 10)) 100) = Num 50"
  using round_fl_half by (simp add: to_number_def js_div_def fl_exact_small)

lemma percent_50_100:
  "Math_round (js_mul (js_div (to_number 50) (to_number 100)) 100) = Num 50"
  using round_fl_half by (simp add: to_number_def js_div_def fl_exact_small fl_100)

lemma percent_100_100:
  "Math_round (js_mul (js_div (to_number 100) (to_number 100)) 100) = Num 100"
  by (simp add: to_number_def js_div_def fl_1 fl_100)

lemma percent_23_40:
  "Math_round (js_mul (js_div (to_number 23) (to_number 40)) 100) = Num 57"
  using round_fl_23_40 by (simp add: to_number_def js_div_def fl_exact_small)

section \<open>Facts about the client\<close>

declare show_nat.simps [simp del]

lemma show_nat_500: "show_nat 500 = ''500''"
  by code_simp

lemma body_jsonResponse: "body (jsonResponse v st) = Json v"
  by (simp add: jsonResponse_def)

lemma apiGet_json_ok:
  "apiGet path (Resolves (jsonResponse v 200)) = ([Fetch path []], Inr v)"
  by (simp add: apiGet_def jsonResponse_def ok_def)

lemma apiGet_json_500:
  "apiGet ''/api/r2/list'' (Resolves (jsonResponse v 500))
     = ([Fetch ''/api/r2/list'' [], ConsoleWarn ''apiGet /api/r2/list returned 500 ''], Inr JNull)"
  by (simp add: apiGet_def jsonResponse_def ok_def show_nat_500)

lemma refreshList_objects:
  "refreshList (Resolves (jsonResponse (JObj [(''objects'', JArr xs)]) 200)) s
     = (s\<lparr>objects := JArr xs\<rparr>, [Fetch ''/api/r2/list'' []], Returned)"
  by (simp add: refreshList_def apiGet_json_ok)

lemma refreshList_500:
  "refreshList (Resolves (jsonResponse v 500)) s
     = (s, [Fetch ''/api/r2/list'' [], ConsoleWarn ''apiGet /api/r2/list returned 500 ''],
        Threw TypeError)"
  by (simp add: refreshList_def apiGet_json_500)

lemma refreshList_not_ok:
  "\<not> ok res
    \<Longrightarrow> refreshList (Resolves res) s
        = (s, [Fetch ''/api/r2/list'' [],
               ConsoleWarn (''apiGet /api/r2/list returned '' @ show_nat (status res)
                 @ '' '' @ statusText res)],
           Threw TypeError)"
  by (simp add: refreshList_def apiGet_def)

lemma refreshList_without_objects:
  "map_of kvs ''objects'' = None
    \<Longrightarrow> refreshList (Resolves (jsonResponse (JObj kvs) 200)) s
        = (s\<lparr>objects := JArr []\<rparr>, [Fetch ''/api/r2/list'' []], Returned)"
  by (simp add: refreshList_def apiGet_json_ok)




text \<open>The two transports of the examples, run.\<close>

lemma put_full:
  "putWithProgress u f setProgress [Progress True 2048 2048, Load 200 ''OK''] s
     = ([XhrOpen ''PUT'' u True,
         XhrSetRequestHeader ''Content-Type''
           (if file_type f = [] then ''application/octet-stream'' else file_type f),
         XhrSend f],
        Fulfilled, s\<lparr>progress := Num 100\<rparr>)"
  by (simp add: putWithProgress_def setProgress_def percent_2048_2048)

lemma put_fails_halfway:
  "putWithProgress u f setProgress [Progress True 5 10, Load 500 ''Internal Server Error''] s
     = ([XhrOpen ''PUT'' u True,
         XhrSetRequestHeader ''Content-Type''
           (if file_type f = [] then ''application/octet-stream'' else file_type f),
         XhrSend f],
        Rejected (Error ''Upload failed: Internal Server Error 500''),
        s\<lparr>progress := Num 50\<rparr>)"
  by (simp add: putWithProgress_def setProgress_def percent_5_10 show_nat_500)

text \<open>
  The progress events of the specification's example, \<open>(50,100)\<close> then \<open>(100,100)\<close>:
  50 is shown, then 100; the last value stands.
\<close>

lemma progress_last_value:
  "foldl (xhr_deliver setProgress) (Pending, initial) [Progress True 50 100]
     = (Pending, initial\<lparr>progress := Num 50\<rparr>)
   \<and> foldl (xhr_deliver setProgress) (Pending, initial)
         [Progress True 50 100, Progress True 100 100]
     = (Pending, initial\<lparr>progress := Num 100\<rparr>)"
  by (simp add: setProgress_def percent_50_100 percent_100_100)

text \<open>The stages of \<open>upload\<close> after a file has passed the size check.\<close>

lemma upload_presign_without_url:
  assumes "file_sel s = Some f" "file_size f \<le> maxSize" "presign_response w = Resolves r"
    "body r = Json payload" "falsy (opt_chain payload ''url'')"
  shows "upload w s =
           (s, [Fetch ''/api/r2/presign''
                  [(''filename'', file_name f), (''contentType'', file_type f)],
                Alert (''presign failed: '' @ JSON_stringify w payload)], Returned)"
  using assms by (simp add: upload_def)

lemma upload_presign_not_json:
  assumes "file_sel s = Some f" "file_size f \<le> maxSize" "presign_response w = Resolves r"
    "body r = Raw t"
  shows "upload w s =
           (s, [Fetch ''/api/r2/presign''
                  [(''filename'', file_name f), (''contentType'', file_type f)]],
            Threw SyntaxError)"
  using assms by (simp add: upload_def)

lemma upload_presigned:
  assumes "file_sel s = Some f" "file_size f \<le> maxSize" "presign_response w = Resolves r"
    "body r = Json payload" "get_prop payload ''url'' = Some u" "truthy u"
    "putWithProgress u f setProgress (xhr_events w) s = (put, p, s1)"
    "refreshList (list_response w) (s1\<lparr>progress := Num 0, file_sel := None\<rparr>) = (s3, es, out)"
  shows "upload w s =
           (case p of
              Pending \<Rightarrow>
                (s1, Fetch ''/api/r2/presign''
                       [(''filename'', file_name f), (''contentType'', file_type f)] # put,
                 Waiting)
            | Rejected e \<Rightarrow>
                (s1, Fetch ''/api/r2/presign''
                       [(''filename'', file_name f), (''contentType'', file_type f)] # put,
                 Threw e)
            | Fulfilled \<Rightarrow>
                (s3, Fetch ''/api/r2/presign''
                       [(''filename'', file_name f), (''contentType'', file_type f)] # put
                     @ [Alert ''Upload complete''] @ es
                     @ (case out of Threw e \<Rightarrow> [UnhandledRejection e] | Returned \<Rightarrow> []
                        | Waiting \<Rightarrow> []),
                 Returned))"
proof -
  have "payload \<noteq> JNull" using assms(5) by auto
  then have "\<not> falsy (opt_chain payload ''url'')"
    using assms(5,6) by (simp add: falsy_def opt_chain_def)
  then show ?thesis
    using assms by (simp add: upload_def split: promise.split)
qed

text \<open>
  The scenario of the specification, run: the collection is the lister's one object,
  the progress is back at 0 and no file is selected.
\<close>

lemma upload_scenario:
  "upload scenario selected =
     (initial\<lparr>objects := JArr [stored_report]\<rparr>,
      [Fetch ''/api/r2/presign''
         [(''filename'', ''report.pdf''), (''contentType'', ''application/pdf'')],
       XhrOpen ''PUT'' (JStr ''https://store.example/abc'') True,
       XhrSetRequestHeader ''Content-Type'' ''application/pdf'',
       XhrSend report_pdf,
       Alert ''Upload complete'',
       Fetch ''/api/r2/list'' []],
      Returned)"
  by (simp add: upload_def scenario_def selected_def initial_def report_pdf_def maxSize_def
      falsy_def opt_chain_def body_jsonResponse put_full refreshList_objects)

text \<open>
  When credential request and transport succeed and the lister answers with a JSON
  value that is not \<open>null\<close>, the attempt ends with the progress at 0, no file
  selected, and the collection replaced by the answer's \<open>objects\<close> (by the empty
  sequence when that is missing or falsy).
\<close>

lemma upload_success:
  assumes "file_sel s = Some f" "file_size f \<le> maxSize" "presign_response w = Resolves r"
    "body r = Json payload" "get_prop payload ''url'' = Some u" "truthy u"
    "fst (snd (putWithProgress u f setProgress (xhr_events w) s)) = Fulfilled"
    "apiGet ''/api/r2/list'' (list_response w) = (es, Inr res)" "res \<noteq> JNull"
  shows "fst (upload w s) =
           \<lparr>file_sel = None, progress = Num 0,
            objects = (case get_prop res ''objects'' of
                         None \<Rightarrow> JArr []
                       | Some v \<Rightarrow> if truthy v then v else JArr [])\<rparr>
         \<and> snd (snd (upload w s)) = Returned"
proof -
  obtain put s1 where put: "putWithProgress u f setProgress (xhr_events w) s = (put, Fulfilled, s1)"
    using assms(7) by (cases "putWithProgress u f setProgress (xhr_events w) s") auto
  define s2 where "s2 = s1\<lparr>progress := Num 0, file_sel := None\<rparr>"
  have rl: "refreshList (list_response w) s2 =
          (s2\<lparr>objects := (case get_prop res ''objects'' of
                         None \<Rightarrow> JArr []
                       | Some v \<Rightarrow> if truthy v then v else JArr [])\<rparr>, es, Returned)"
    using assms(8,9) by (simp add: refreshList_def)
  show ?thesis
    using upload_presigned [OF assms(1-6) put rl [unfolded s2_def]]
    by (simp add: s2_def)
qed

section \<open>The claims\<close>

text \<open>
  C1, as the code has it. A presign response whose JSON body has no truthy \<open>url\<close>
  (the body is \<open>null\<close>, has no \<open>url\<close>, or has an empty, zero, false or null one)
  ends the attempt with the one message \<open>presign failed: ...\<close>, the state untouched
  and the transport never invoked; a response whose body is not JSON never reaches
  the transport either. The status of the response is not read: the test is on the
  body alone.
\<close>

theorem presign_without_url_stops:
  assumes "file_sel s = Some f" "file_size f \<le> maxSize" "presign_response w = Resolves r"
  shows "(\<forall>payload. body r = Json payload \<longrightarrow> falsy (opt_chain payload ''url'') \<longrightarrow>
            upload w s =
              (s, [Fetch ''/api/r2/presign''
                     [(''filename'', file_name f), (''contentType'', file_type f)],
                   Alert (''presign failed: '' @ JSON_stringify w payload)], Returned))
       \<and> (\<forall>t. body r = Raw t \<longrightarrow> filter is_transport (fst (snd (upload w s))) = [])"
proof (intro conjI allI impI)
  fix payload
  assume "body r = Json payload" "falsy (opt_chain payload ''url'')"
  with assms show "upload w s =
      (s, [Fetch ''/api/r2/presign''
             [(''filename'', file_name f), (''contentType'', file_type f)],
           Alert (''presign failed: '' @ JSON_stringify w payload)], Returned)"
    by (rule upload_presign_without_url)
next
  fix t
  assume "body r = Raw t"
  with assms have "upload w s =
      (s, [Fetch ''/api/r2/presign''
             [(''filename'', file_name f), (''contentType'', file_type f)]],
       Threw SyntaxError)"
    by (rule upload_presign_not_json)
  then show "filter is_transport (fst (snd (upload w s))) = []" by simp
qed

theorem presign_without_url_stops_witness:
  "upload
     (scenario\<lparr>presign_response :=
        Resolves (jsonResponse (JObj [(''error'', JStr ''no such bucket'')]) 500)\<rparr>)
     selected
   = (selected,
      [Fetch ''/api/r2/presign''
         [(''filename'', ''report.pdf''), (''contentType'', ''application/pdf'')],
       Alert ''presign failed: [payload]''],
      Returned)"
  using presign_without_url_stops
    [of selected report_pdf
        "scenario\<lparr>presign_response :=
           Resolves (jsonResponse (JObj [(''error'', JStr ''no such bucket'')]) 500)\<rparr>"
        "jsonResponse (JObj [(''error'', JStr ''no such bucket'')]) 500"]
  by (simp add: selected_def scenario_def report_pdf_def maxSize_def body_jsonResponse
      falsy_def opt_chain_def)

text \<open>
  C1 as stated fails: a response with status 500 whose body carries a \<open>url\<close> is not a
  presign failure for the code, which goes on to the transport and sends the file.
\<close>

theorem presign_status_not_read:
  "\<not> ok (jsonResponse (JObj [(''url'', JStr ''https://store.example/abc'')]) 500)
   \<and> upload
       (scenario\<lparr>presign_response :=
          Resolves (jsonResponse (JObj [(''url'', JStr ''https://store.example/abc'')]) 500)\<rparr>)
       selected
     = (initial\<lparr>objects := JArr [stored_report]\<rparr>,
        [Fetch ''/api/r2/presign''
           [(''filename'', ''report.pdf''), (''contentType'', ''application/pdf'')],
         XhrOpen ''PUT'' (JStr ''https://store.example/abc'') True,
         XhrSetRequestHeader ''Content-Type'' ''application/pdf'',
         XhrSend report_pdf,
         Alert ''Upload complete'',
         Fetch ''/api/r2/list'' []],
        Returned)"
  by (simp add: upload_def scenario_def selected_def initial_def report_pdf_def maxSize_def
      falsy_def opt_chain_def body_jsonResponse put_full refreshList_objects)
     (simp add: ok_def jsonResponse_def)

text \<open>
  C2, as the code has it. An attempt that fails at validation, or at a presign
  response whose JSON body has no truthy \<open>url\<close>, ends with exactly one message, no
  step of the transport, and the state exactly as it was before the attempt: the
  candidate stays selected, progress and collection are untouched.
\<close>

theorem failed_attempt_keeps_state:
  assumes "file_sel s = Some f"
    and "maxSize < file_size f
         \<or> (\<exists>r payload. presign_response w = Resolves r \<and> body r = Json payload
                \<and> falsy (opt_chain payload ''url''))"
  shows "\<exists>es. upload w s = (s, es, Returned) \<and> length (filter is_alert es) = 1
            \<and> filter is_transport es = []"
proof (cases "maxSize < file_size f")
  case True
  with assms(1) have "upload w s = (s, [Alert ''file exceeds max size (1GB)''], Returned)"
    by (simp add: upload_def)
  then show ?thesis by simp
next
  case False
  with assms(2) obtain r payload where
    "presign_response w = Resolves r" "body r = Json payload" "falsy (opt_chain payload ''url'')"
    by blast
  with assms(1) False have "upload w s =
      (s, [Fetch ''/api/r2/presign''
             [(''filename'', file_name f), (''contentType'', file_type f)],
           Alert (''presign failed: '' @ JSON_stringify w payload)], Returned)"
    by (simp add: upload_presign_without_url)
  then show ?thesis by simp
qed

theorem failed_attempt_keeps_state_witness:
  "\<exists>es. upload scenario (selected\<lparr>file_sel := Some (report_pdf\<lparr>file_size := 1073741825\<rparr>)\<rparr>)
           = (selected\<lparr>file_sel := Some (report_pdf\<lparr>file_size := 1073741825\<rparr>)\<rparr>, es, Returned)
         \<and> length (filter is_alert es) = 1 \<and> filter is_transport es = []"
  using failed_attempt_keeps_state
    [of "selected\<lparr>file_sel := Some (report_pdf\<lparr>file_size := 1073741825\<rparr>)\<rparr>"
        "report_pdf\<lparr>file_size := 1073741825\<rparr>" scenario]
  by (simp add: maxSize_def)

text \<open>
  C2 as stated fails. After a failed validation the candidate is still selected, not
  back at its initial \<open>null\<close>. And when the transport ends with status 500 after half
  of the file, \<open>upload\<close> throws: no message is shown, the progress stays at 50 and the
  candidate stays selected.
\<close>

theorem failed_attempt_not_reset:
  "file_sel (fst (upload scenario
       (selected\<lparr>file_sel := Some (report_pdf\<lparr>file_size := 1073741825\<rparr>)\<rparr>)))
     \<noteq> file_sel initial
   \<and> upload
       (scenario\<lparr>xhr_events := [Progress True 5 10, Load 500 ''Internal Server Error'']\<rparr>)
       selected
     = (selected\<lparr>progress := Num 50\<rparr>,
        [Fetch ''/api/r2/presign''
           [(''filename'', ''report.pdf''), (''contentType'', ''application/pdf'')],
         XhrOpen ''PUT'' (JStr ''https://store.example/abc'') True,
         XhrSetRequestHeader ''Content-Type'' ''application/pdf'',
         XhrSend report_pdf],
        Threw (Error ''Upload failed: Internal Server Error 500''))"
  by (simp add: upload_def scenario_def selected_def initial_def report_pdf_def maxSize_def
      falsy_def opt_chain_def body_jsonResponse put_fails_halfway)

text \<open>
  C3. A candidate of more than 1,073,741,824 bytes is rejected with the one message
  \<open>file exceeds max size (1GB)\<close> and nothing else happens: no request to the
  credential issuer, no transport, no listing, and the state is untouched.
\<close>

theorem upload_rejects_oversize:
  "file_sel s = Some f \<Longrightarrow> 1073741824 < file_size f
    \<Longrightarrow> upload w s = (s, [Alert ''file exceeds max size (1GB)''], Returned)"
  by (simp add: upload_def maxSize_def)

theorem upload_rejects_oversize_witness:
  "upload scenario (initial\<lparr>file_sel := Some (report_pdf\<lparr>file_size := 1073741825\<rparr>)\<rparr>)
     = (initial\<lparr>file_sel := Some (report_pdf\<lparr>file_size := 1073741825\<rparr>)\<rparr>,
        [Alert ''file exceeds max size (1GB)''], Returned)"
  using upload_rejects_oversize
    [of "initial\<lparr>file_sel := Some (report_pdf\<lparr>file_size := 1073741825\<rparr>)\<rparr>"
        "report_pdf\<lparr>file_size := 1073741825\<rparr>" scenario]
  by simp



text \<open>
  C5, at the input where the code departs from it. The listing request is answered
  with status 500 (the worker's answer when the bucket is not bound) while the
  collection holds an object. \<open>apiGet\<close> returns \<open>null\<close>, \<open>refreshList\<close> reads
  \<open>res.objects\<close> of it and throws a \<open>TypeError\<close>: the collection is not replaced by
  the empty sequence, it keeps its old content.
\<close>

theorem refreshList_throws_on_error:
  "refreshList
     (Resolves (jsonResponse (JObj [(''error'', JStr ''R2 binding not configured'')]) 500))
     (initial\<lparr>objects := JArr [stored_report]\<rparr>)
   = (initial\<lparr>objects := JArr [stored_report]\<rparr>,
      [Fetch ''/api/r2/list'' [], ConsoleWarn ''apiGet /api/r2/list returned 500 ''],
      Threw TypeError)"
  by (simp add: refreshList_500)

text \<open>
  C6, at the input where the code departs from it. Credential request and transport
  succeed, then the listing request is answered with status 500. Progress and
  selection are reset, but the collection is not replaced: it keeps the stale object,
  and the \<open>TypeError\<close> of \<open>refreshList\<close> is left unhandled.
\<close>

theorem upload_keeps_stale_objects:
  "upload
     (scenario\<lparr>list_response :=
        Resolves (jsonResponse (JObj [(''error'', JStr ''R2 binding not configured'')]) 500)\<rparr>)
     (selected\<lparr>objects := JArr [JObj [(''key'', JStr ''uploads/old.txt'')]]\<rparr>)
   = (initial\<lparr>objects := JArr [JObj [(''key'', JStr ''uploads/old.txt'')]]\<rparr>,
      [Fetch ''/api/r2/presign''
         [(''filename'', ''report.pdf''), (''contentType'', ''application/pdf'')],
       XhrOpen ''PUT'' (JStr ''https://store.example/abc'') True,
       XhrSetRequestHeader ''Content-Type'' ''application/pdf'',
       XhrSend report_pdf,
       Alert ''Upload complete'',
       Fetch ''/api/r2/list'' [],
       ConsoleWarn ''apiGet /api/r2/list returned 500 '',
       UnhandledRejection TypeError],
      Returned)"
  by (simp add: upload_def scenario_def selected_def initial_def report_pdf_def maxSize_def
      falsy_def opt_chain_def body_jsonResponse put_full refreshList_500)

text \<open>
  C7, as the code has it. For a progress event with \<open>lengthComputable\<close>, \<open>total > 0\<close> and
  \<open>loaded \<le> total\<close>, the value handed to \<open>onProgress\<close> is \<open>Math.round\<close> of the double
  \<open>(loaded / total) * 100\<close>, each operation rounded to the nearest double; it is an
  integer between 0 and 100, and at most 1 away from the exact percentage rounded
  to the nearest integer. An event without \<open>lengthComputable\<close>, whatever its \<open>loaded\<close>
  and \<open>total\<close> (a browser sets \<open>total\<close> to 0 then), reports nothing and leaves the
  promise as it is: it is no error.
\<close>

theorem progress_report:
  "(loaded \<le> tot \<and> tot \<noteq> 0 \<longrightarrow>
      xhr_deliver onP (p, st) (Progress True loaded tot)
        = (p, onP (Num (of_int (round (fl (fl (to_number loaded / to_number tot) * 100))))) st)
      \<and> 0 \<le> round (fl (fl (to_number loaded / to_number tot) * 100))
      \<and> round (fl (fl (to_number loaded / to_number tot) * 100)) \<le> 100
      \<and> \<bar>round (fl (fl (to_number loaded / to_number tot) * 100))
           - round (of_nat (unat loaded) / of_nat (unat tot) * 100 :: rat)\<bar> \<le> 1)
   \<and> xhr_deliver onP (p, st) (Progress False sent len) = (p, st)"
proof (rule conjI, rule impI)
  assume a: "loaded \<le> tot \<and> tot \<noteq> 0"
  then have le: "loaded \<le> tot" and nz: "tot \<noteq> 0" by simp_all
  have t: "to_number tot \<noteq> 0" using to_number_pos [OF nz] by simp
  obtain k where k: "Math_round (js_mul (js_div (to_number loaded) (to_number tot)) 100)
      = Num (of_int k)" "0 \<le> k" "k \<le> 100"
    using percent_range [OF le nz] by blast
  have "Math_round (js_mul (js_div (to_number loaded) (to_number tot)) 100)
      = Num (of_int (round (fl (fl (to_number loaded / to_number tot) * 100))))"
    using t by (simp add: js_div_def)
  with k have "round (fl (fl (to_number loaded / to_number tot) * 100)) = k" by simp
  with k(2,3) t percent_near_exact [OF le nz]
  show "xhr_deliver onP (p, st) (Progress True loaded tot)
        = (p, onP (Num (of_int (round (fl (fl (to_number loaded / to_number tot) * 100))))) st)
      \<and> 0 \<le> round (fl (fl (to_number loaded / to_number tot) * 100))
      \<and> round (fl (fl (to_number loaded / to_number tot) * 100)) \<le> 100
      \<and> \<bar>round (fl (fl (to_number loaded / to_number tot) * 100))
           - round (of_nat (unat loaded) / of_nat (unat tot) * 100 :: rat)\<bar> \<le> 1"
    by (simp add: js_div_def)
next
  show "xhr_deliver onP (p, st) (Progress False sent len) = (p, st)" by simp
qed

theorem progress_report_witness:
  "xhr_deliver setProgress (Pending, initial) (Progress True 50 100)
     = (Pending, initial\<lparr>progress := Num 50\<rparr>)
   \<and> xhr_deliver setProgress (Pending, initial) (Progress False 50 0) = (Pending, initial)"
  using progress_report
    [where loaded = 50 and tot = 100 and onP = setProgress and p = Pending and st = initial
       and sent = 50 and len = 0]
    round_fl_half
  by (simp add: setProgress_def to_number_def fl_exact_small fl_100)

text \<open>
  C7 as stated fails: for 23 bytes of 40 the exact percentage is 57.5, which rounds to
  58, but the double \<open>(23 / 40) * 100\<close> is 57.49999999999999 and the value shown is 57.
\<close>

theorem progress_not_exactly_rounded:
  "progress (snd (xhr_deliver setProgress (Pending, initial) (Progress True 23 40))) = Num 57
   \<and> round ((23 :: rat) / 40 * 100) = 58"
  by (simp add: setProgress_def percent_23_40 round_def)

text \<open>
  C8, at the input where the code departs from it. The router has no route for
  \<open>/api/r2/presign\<close>: the request falls through to the route \<open>*\<close>, whose handler
  serves static assets. A deployed site answers it with the page \<open>/employee.html\<close>,
  status 200; a site without assets answers \<open>Not Found\<close>, status 404. Neither is a
  body \<open>{ url }\<close>: the worker issues no write URL.
\<close>

theorem presign_route_missing:
  "router_handle \<lparr>req_method = ''GET'', pathname = ''/api/r2/presign''\<rparr> = Some StaticAsset
   \<and> asset_route \<lparr>req_method = ''GET'', pathname = ''/api/r2/presign''\<rparr> site = employee_html
   \<and> asset_route \<lparr>req_method = ''GET'', pathname = ''/api/r2/presign''\<rparr>
         \<lparr>ASSETS = Some (\<lambda>p. None)\<rparr>
       = \<lparr>status = 404, statusText = [], content_type = Some ''text/plain;charset=UTF-8'',
          body = Raw ''Not Found''\<rparr>"
  by (simp add: router_handle_def router_def route_matches_def asset_route_def serveAsset_def
      site_def)

text \<open>
  Whatever the bindings, the answer to that request is \<open>serveAsset\<close>'s, and a JSON body
  in it can only be an asset's.
\<close>

lemma presign_is_static:
  "asset_route \<lparr>req_method = ''GET'', pathname = ''/api/r2/presign''\<rparr> env
     = serveAsset \<lparr>req_method = ''GET'', pathname = ''/api/r2/presign''\<rparr> env"
  by (simp add: asset_route_def)

lemma serveAsset_json_is_asset:
  assumes "body (serveAsset req env) = Json v"
  shows "\<exists>kv p r. ASSETS env = Some kv \<and> kv p = Some r \<and> body r = Json v"
  using assms by (auto simp: serveAsset_def split: option.splits)

text \<open>
  What the client makes of that answer: the body is not JSON, \<open>upload\<close> throws the
  \<open>SyntaxError\<close> of \<open>r.json()\<close> and shows nothing.
\<close>

lemma upload_against_worker:
  "upload
     (scenario\<lparr>presign_response :=
        Resolves (asset_route \<lparr>req_method = ''GET'', pathname = ''/api/r2/presign''\<rparr> site)\<rparr>)
     selected
   = (selected,
      [Fetch ''/api/r2/presign''
         [(''filename'', ''report.pdf''), (''contentType'', ''application/pdf'')]],
      Threw SyntaxError)"
  by (simp add: upload_def scenario_def selected_def initial_def report_pdf_def maxSize_def
      asset_route_def serveAsset_def site_def employee_html_def)



text \<open>
  C10. With no file selected, \<open>upload\<close> shows \<open>choose a file\<close> and does nothing else: no
  request of any kind, and file, progress and collection are as they were.
\<close>

theorem upload_without_file:
  "file_sel s = None \<Longrightarrow> upload w s = (s, [Alert ''choose a file''], Returned)"
  by (simp add: upload_def)

theorem upload_without_file_witness:
  "file_sel initial = None
   \<and> upload scenario initial = (initial, [Alert ''choose a file''], Returned)"
  using upload_without_file [of initial scenario] by (simp add: initial_def)


end
